theory Spec2Isabelle
  imports Complex_Main "HOL-Library.Multiset"
begin

section \<open>Python values used by the entities\<close>

text \<open>
  Python \<open>str\<close> values are modelled as \<open>string\<close>; one \<open>char\<close> stands for one code
  point (code points below 256). Slices follow Python: \<open>s[n:]\<close> is \<open>drop n s\<close> and
  \<open>s[:n]\<close> with a negative \<open>n\<close> counts from the end.
\<close>

datatype pyval = PyNone | PyStr string | PyList "pyval list"

definition hexdigit :: "nat \<Rightarrow> char" where
  "hexdigit n = ''0123456789abcdef'' ! (n mod 16)"

definition py_printable :: "char \<Rightarrow> bool" where
  "py_printable c =
     (let n = (of_char c :: nat)
      in \<not> (n < 32 \<or> n = 127 \<or> (128 \<le> n \<and> n \<le> 160) \<or> n = 173))"

definition repr_char :: "char \<Rightarrow> char \<Rightarrow> string" where
  "repr_char q c =
     (if c = q \<or> c = CHR 0x5C then [CHR 0x5C, c]
      else if c = CHR 0x09 then [CHR 0x5C, CHR ''t'']
      else if c = CHR 0x0A then [CHR 0x5C, CHR ''n'']
      else if c = CHR 0x0D then [CHR 0x5C, CHR ''r'']
      else if \<not> py_printable c
        then [CHR 0x5C, CHR ''x'', hexdigit ((of_char c :: nat) div 16), hexdigit (of_char c)]
      else [c])"

definition repr_str :: "string \<Rightarrow> string" where
  "repr_str s =
     (let q = (if CHR 0x27 \<in> set s \<and> CHR 0x22 \<notin> set s then CHR 0x22 else CHR 0x27)
      in [q] @ concat (map (repr_char q) s) @ [q])"

fun join :: "string \<Rightarrow> string list \<Rightarrow> string" where
  "join sep [] = []"
| "join sep [x] = x"
| "join sep (x # y # ys) = x @ sep @ join sep (y # ys)"

fun py_repr :: "pyval \<Rightarrow> string" where
  "py_repr PyNone = ''None''"
| "py_repr (PyStr s) = repr_str s"
| "py_repr (PyList vs) = ''['' @ join '', '' (map py_repr vs) @ '']''"

fun py_str :: "pyval \<Rightarrow> string" where
  "py_str (PyStr s) = s"
| "py_str v = py_repr v"

text \<open>Truthiness of an optional string argument: \<open>None\<close> and \<open>""\<close> are falsy.\<close>

fun truthy :: "string option \<Rightarrow> bool" where
  "truthy None = False"
| "truthy (Some s) = (s \<noteq> [])"

section \<open>The relational store\<close>

text \<open>
  Modelled from the spec: the \<open>Database\<close> driver (\<open>Database/sqldb.py\<close>, methods
  \<open>create_table\<close>, \<open>execute_query\<close>, \<open>fetch_all\<close>, \<open>fetch_one\<close>) is not among the
  sources. The spec describes it as a generic SQL driver (table creation, parameterized
  execute/fetch) over three tables \<open>claims\<close>, \<open>sources\<close>, \<open>answers\<close>, whose failures are
  re-raised to the caller. The statements executed are the SQL texts of the entity
  methods. A table is absent (\<open>None\<close>) or holds its rows in insertion order; a statement
  on an absent table fails, as does an insert that repeats a primary key.
\<close>

datatype store_error = NoSuchTable string | UniqueViolation string

type_synonym 'r table = "'r list option"

definition create_table_if_not_exists :: "'r table \<Rightarrow> 'r table" where
  "create_table_if_not_exists t = (case t of None \<Rightarrow> Some [] | Some rs \<Rightarrow> Some rs)"

definition insert_into :: "string \<Rightarrow> ('r \<Rightarrow> string) \<Rightarrow> 'r \<Rightarrow> 'r table \<Rightarrow> store_error + 'r table" where
  "insert_into name pk r t =
     (case t of
        None \<Rightarrow> Inl (NoSuchTable name)
      | Some rs \<Rightarrow>
          if pk r \<in> set (map pk rs) then Inl (UniqueViolation name)
          else Inr (Some (rs @ [r])))"

definition delete_where :: "string \<Rightarrow> ('r \<Rightarrow> bool) \<Rightarrow> 'r table \<Rightarrow> store_error + 'r table" where
  "delete_where name P t =
     (case t of
        None \<Rightarrow> Inl (NoSuchTable name)
      | Some rs \<Rightarrow> Inr (Some (filter (\<lambda>r. \<not> P r) rs)))"

definition select_where :: "string \<Rightarrow> ('r \<Rightarrow> bool) \<Rightarrow> 'r table \<Rightarrow> store_error + 'r list" where
  "select_where name P t =
     (case t of
        None \<Rightarrow> Inl (NoSuchTable name)
      | Some rs \<Rightarrow> Inr (filter P rs))"

definition select_one :: "string \<Rightarrow> ('r \<Rightarrow> bool) \<Rightarrow> 'r table \<Rightarrow> store_error + 'r option" where
  "select_one name P t =
     (case select_where name P t of
        Inl e \<Rightarrow> Inl e
      | Inr [] \<Rightarrow> Inr None
      | Inr (r # _) \<Rightarrow> Inr (Some r))"

record claim_row =
  cr_id :: string
  cr_text :: string
  cr_title :: string
  cr_summary :: string

record source_row =
  sr_id :: string
  sr_claim_id :: string
  sr_title :: string
  sr_url :: string
  sr_site :: string
  sr_body :: string
  sr_topic :: string
  sr_entities :: string

record answer_row =
  ar_id :: string
  ar_claim_id :: string
  ar_answer :: string
  ar_graphs_folder :: string

record database =
  claims :: "claim_row table"
  sources :: "source_row table"
  answers :: "answer_row table"

section \<open>Database/data\_entities.py: Claim\<close>

text \<open>
  The object's attributes \<open>id\<close>, \<open>text\<close>, \<open>title\<close>, \<open>summary\<close> (prefixed here, since
  \<open>id\<close> and \<open>text\<close> are taken in Isabelle); \<open>self.db\<close> is the store, passed explicitly
  and returned updated. A failing statement raises: the result is then the error alone.
  The logger calls of the entity methods do not touch the store and are left out.
\<close>

record claim =
  c_id :: string
  c_text :: string
  c_title :: string
  c_summary :: string

text \<open>
  \<open>Claim.save_to_db\<close>: \<open>CREATE TABLE IF NOT EXISTS claims\<close>, then
  \<open>INSERT INTO claims (id, text, title, summary)\<close>.
\<close>

definition save_to_db :: "database \<Rightarrow> claim \<Rightarrow> store_error + database" where
  "save_to_db db self =
     (let db1 = db\<lparr>claims := create_table_if_not_exists (claims db)\<rparr>
      in case insert_into ''claims'' cr_id
              \<lparr>cr_id = c_id self, cr_text = c_text self, cr_title = c_title self,
               cr_summary = c_summary self\<rparr> (claims db1) of
           Inl e \<Rightarrow> Inl e
         | Inr t \<Rightarrow> Inr (db1\<lparr>claims := t\<rparr>))"

text \<open>
  \<open>Claim.__init__(text, title, summary, claim_id=None, db)\<close>. The argument \<open>uuid4\<close> is
  the string \<open>str(uuid.uuid4())\<close> would produce; it is used when \<open>claim_id\<close> is falsy.
\<close>

definition Claim_init ::
  "database \<Rightarrow> string \<Rightarrow> string \<Rightarrow> string \<Rightarrow> string option \<Rightarrow> string \<Rightarrow> store_error + claim \<times> database" where
  "Claim_init db txt ttl summ claim_id uuid4 =
     (let self = \<lparr>c_id = (if truthy claim_id then the claim_id else uuid4),
                  c_text = txt, c_title = drop 2 ttl, c_summary = summ\<rparr>
      in case save_to_db db self of
           Inl e \<Rightarrow> Inl e
         | Inr db' \<Rightarrow> Inr (self, db'))"

text \<open>
  One element of \<open>sources_data\<close>: a dict with the keys \<open>title\<close>, \<open>url\<close>, \<open>site\<close>,
  \<open>body\<close>, \<open>topic\<close> (strings, bound to TEXT columns) and \<open>entities\<close> (any value: it
  is passed through \<open>str\<close>).
\<close>

record source_data =
  data_title :: string
  data_url :: string
  data_site :: string
  data_body :: string
  data_topic :: string
  data_entities :: pyval

text \<open>One dict of the list \<open>get_dict_sources\<close> returns; every value is a \<open>str\<close>.\<close>

record source_dict =
  d_source_id :: string
  d_claim_id :: string
  d_title :: string
  d_url :: string
  d_site :: string
  d_body :: string
  d_topic :: string
  d_entities :: string

text \<open>
  \<open>Claim.get_dict_sources\<close>: \<open>SELECT * FROM sources WHERE claim_id = ?\<close>, each row turned
  into a dict.
\<close>

definition row_dict :: "source_row \<Rightarrow> source_dict" where
  "row_dict row =
     \<lparr>d_source_id = sr_id row, d_claim_id = sr_claim_id row, d_title = sr_title row,
      d_url = sr_url row, d_site = sr_site row, d_body = sr_body row, d_topic = sr_topic row,
      d_entities = sr_entities row\<rparr>"

definition get_dict_sources :: "database \<Rightarrow> claim \<Rightarrow> store_error + source_dict list" where
  "get_dict_sources db self =
     (case select_where ''sources'' (\<lambda>r. sr_claim_id r = c_id self) (sources db) of
        Inl e \<Rightarrow> Inl e
      | Inr rows \<Rightarrow> Inr (map row_dict rows))"

text \<open>
  The loop of \<open>Claim.add_sources\<close>: one \<open>INSERT INTO sources\<close> per element, the first
  failure ending the loop. \<open>uuid k\<close> is the string the \<open>k\<close>-th call of
  \<open>str(uuid.uuid4())\<close> produces.
\<close>

definition source_params :: "string \<Rightarrow> string \<Rightarrow> source_data \<Rightarrow> source_row" where
  "source_params u cid data =
     \<lparr>sr_id = u, sr_claim_id = cid, sr_title = data_title data, sr_url = data_url data,
      sr_site = data_site data, sr_body = data_body data, sr_topic = data_topic data,
      sr_entities = py_str (data_entities data)\<rparr>"

fun insert_sources ::
  "string \<Rightarrow> (nat \<Rightarrow> string) \<Rightarrow> nat \<Rightarrow> source_data list \<Rightarrow> source_row table
     \<Rightarrow> store_error + source_row table" where
  "insert_sources cid uuid k [] t = Inr t"
| "insert_sources cid uuid k (data # rest) t =
     (case insert_into ''sources'' sr_id (source_params (uuid k) cid data) t of
        Inl e \<Rightarrow> Inl e
      | Inr t' \<Rightarrow> insert_sources cid uuid (Suc k) rest t')"

definition add_sources ::
  "database \<Rightarrow> claim \<Rightarrow> (nat \<Rightarrow> string) \<Rightarrow> source_data list \<Rightarrow> store_error + database" where
  "add_sources db self uuid sources_data =
     (let db1 = db\<lparr>sources := create_table_if_not_exists (sources db)\<rparr>
      in case insert_sources (c_id self) uuid 0 sources_data (sources db1) of
           Inl e \<Rightarrow> Inl e
         | Inr t \<Rightarrow> Inr (db1\<lparr>sources := t\<rparr>))"

text \<open>
  \<open>Claim.clear_database\<close>: \<open>DELETE FROM claims WHERE id = ?\<close>, then
  \<open>DELETE FROM sources WHERE claim_id = ?\<close>, then \<open>DELETE FROM answers WHERE claim_id = ?\<close>.
  No table is created here.
\<close>

definition clear_database :: "database \<Rightarrow> claim \<Rightarrow> store_error + database" where
  "clear_database db self =
     (case delete_where ''claims'' (\<lambda>r. cr_id r = c_id self) (claims db) of
        Inl e \<Rightarrow> Inl e
      | Inr t1 \<Rightarrow>
         (case delete_where ''sources'' (\<lambda>r. sr_claim_id r = c_id self) (sources db) of
            Inl e \<Rightarrow> Inl e
          | Inr t2 \<Rightarrow>
             (case delete_where ''answers'' (\<lambda>r. ar_claim_id r = c_id self) (answers db) of
                Inl e \<Rightarrow> Inl e
              | Inr t3 \<Rightarrow> Inr (db\<lparr>claims := t1, sources := t2, answers := t3\<rparr>))))"

text \<open>\<open>Claim.has_answer\<close>: \<open>SELECT * FROM answers WHERE claim_id = ?\<close>, one row fetched.\<close>

definition has_answer :: "database \<Rightarrow> claim \<Rightarrow> store_error + bool" where
  "has_answer db self =
     (case select_one ''answers'' (\<lambda>r. ar_claim_id r = c_id self) (answers db) of
        Inl e \<Rightarrow> Inl e
      | Inr row \<Rightarrow> Inr (row \<noteq> None))"

section \<open>Database/data\_entities.py: Answer\<close>

record answer =
  a_id :: string
  a_claim_id :: string
  a_answer :: string
  a_graphs_folder :: string

text \<open>
  \<open>Answer.save_to_db\<close>: \<open>CREATE TABLE IF NOT EXISTS answers\<close>, then
  \<open>INSERT INTO answers (id, claim_id, answer, graphs_folder)\<close>.
\<close>

definition Answer_save_to_db :: "database \<Rightarrow> answer \<Rightarrow> store_error + database" where
  "Answer_save_to_db db self =
     (let db1 = db\<lparr>answers := create_table_if_not_exists (answers db)\<rparr>
      in case insert_into ''answers'' ar_id
              \<lparr>ar_id = a_id self, ar_claim_id = a_claim_id self, ar_answer = a_answer self,
               ar_graphs_folder = a_graphs_folder self\<rparr> (answers db1) of
           Inl e \<Rightarrow> Inl e
         | Inr t \<Rightarrow> Inr (db1\<lparr>answers := t\<rparr>))"

definition Answer_init ::
  "database \<Rightarrow> string \<Rightarrow> string \<Rightarrow> string \<Rightarrow> string option \<Rightarrow> string \<Rightarrow> store_error + answer \<times> database" where
  "Answer_init db claim_id ans graphs_folder answer_id uuid4 =
     (let self = \<lparr>a_id = (if truthy answer_id then the answer_id else uuid4),
                  a_claim_id = claim_id, a_answer = ans, a_graphs_folder = graphs_folder\<rparr>
      in case Answer_save_to_db db self of
           Inl e \<Rightarrow> Inl e
         | Inr db' \<Rightarrow> Inr (self, db'))"

text \<open>Re-reading a claim row: \<open>SELECT * FROM claims WHERE id = ?\<close>.\<close>

definition fetch_claim :: "database \<Rightarrow> string \<Rightarrow> store_error + claim_row option" where
  "fetch_claim db cid = select_one ''claims'' (\<lambda>r. cr_id r = cid) (claims db)"

section \<open>data\_entities.py: Source and Claim.get\_sources\<close>

text \<open>
  The variant of the entities without title and summary reads the same \<open>sources\<close>
  columns into \<open>Source\<close> objects. \<open>Source.__init__\<close> keeps a truthy \<open>source_id\<close> and
  generates a UUID string otherwise; \<open>uuid k\<close> is the string generated for the row at
  position \<open>k\<close> when that happens.
\<close>

record source =
  s_id :: string
  s_claim_id :: string
  s_title :: string
  s_url :: string
  s_site :: string
  s_body :: string
  s_entities :: string
  s_topic :: string

definition Source_init ::
  "string \<Rightarrow> string \<Rightarrow> string \<Rightarrow> string \<Rightarrow> string \<Rightarrow> string \<Rightarrow> string \<Rightarrow> string option \<Rightarrow> string
     \<Rightarrow> source" where
  "Source_init claim_id ttl url site body entities topic source_id uuid4 =
     \<lparr>s_id = (if truthy source_id then the source_id else uuid4), s_claim_id = claim_id,
      s_title = ttl, s_url = url, s_site = site, s_body = body, s_entities = entities,
      s_topic = topic\<rparr>"

definition get_sources :: "database \<Rightarrow> string \<Rightarrow> (nat \<Rightarrow> string) \<Rightarrow> store_error + source list" where
  "get_sources db self_id uuid =
     (case select_where ''sources'' (\<lambda>r. sr_claim_id r = self_id) (sources db) of
        Inl e \<Rightarrow> Inl e
      | Inr rows \<Rightarrow>
          Inr (map (\<lambda>(k, row). Source_init (sr_claim_id row) (sr_title row) (sr_url row)
                                 (sr_site row) (sr_body row) (sr_entities row) (sr_topic row)
                                 (Some (sr_id row)) (uuid k))
                 (enumerate 0 rows)))"

section \<open>Preprocessor/summarizer.py: Summarizer\<close>

text \<open>
  Modelled from the spec: the \<open>Logger\<close> class (\<open>log.py\<close>) is not among the sources; the
  spec names it a structured logger. A logging call appends one entry (level and message
  template) to a trace and cannot fail. \<open>time.sleep\<close> is recorded in the same trace.
\<close>

datatype level = DEBUG | INFO | WARNING | ERROR

datatype event = Log level string | Sleep rat

text \<open>
  Exceptions (subclasses of \<open>Exception\<close>, which \<open>except Exception\<close> catches): whatever
  \<open>client.chat.completions.create\<close> raises (network, authentication, rate limit;
  \<open>RemoteError\<close>), \<open>IndexError\<close> from \<open>choices[0]\<close> on an empty list,
  \<open>AttributeError\<close> from \<open>.strip()\<close> on a \<open>None\<close> content, \<open>ValueError\<close> from
  \<open>time.sleep\<close> on a negative duration.
\<close>

datatype exn = RemoteError string | IndexError | AttributeError | ValueError

record request =
  req_messages :: "(string \<times> string) list"
  req_model :: "string option"
  req_temperature :: rat
  req_max_completion_tokens :: int
  req_stop :: "string option"

text \<open>A response is the list of its choices, each the \<open>message.content\<close> (possibly \<open>None\<close>).\<close>

type_synonym response = "string option list"

text \<open>
  The remote endpoint: a transition of an endpoint state \<open>'c\<close> that answers a request with
  a response or an exception. The Summarizer holds the two model names read from the
  environment (\<open>os.getenv\<close> gives \<open>None\<close> for an unset variable).
\<close>

type_synonym 'c client = "'c \<Rightarrow> request \<Rightarrow> (exn + response) \<times> 'c"

record summarizer =
  model :: "string option"
  low_model :: "string option"

definition py_space :: "char \<Rightarrow> bool" where
  "py_space c =
     (let n = (of_char c :: nat)
      in (9 \<le> n \<and> n \<le> 13) \<or> (28 \<le> n \<and> n \<le> 32) \<or> n = 133 \<or> n = 160)"

definition strip :: "string \<Rightarrow> string" where
  "strip s = rev (dropWhile py_space (rev (dropWhile py_space s)))"

definition slice_to :: "int \<Rightarrow> string \<Rightarrow> string" where
  "slice_to n s = (if 0 \<le> n then take (nat n) s else take (nat (int (length s) + n)) s)"

text \<open>\<open>response.choices[0].message.content.strip()\<close>\<close>

definition first_content :: "response \<Rightarrow> exn + string" where
  "first_content r =
     (case r of
        [] \<Rightarrow> Inl IndexError
      | c # _ \<Rightarrow> (case c of None \<Rightarrow> Inl AttributeError | Some s \<Rightarrow> Inr (strip s)))"

definition rephrase_instruction :: string where
  "rephrase_instruction =
     ''You are an AI designed to rephrase a claim into a concise, specific, and highly searchable query. Focus on preserving all critical details such as names, dates, locations, or key terms, but avoid unnecessary words. Provide only the text without any additional formatting only add at the beginning !g''"

definition summary_instruction :: string where
  "summary_instruction =
     ''You are a summarizer, be specific. Don't use lists or bullet points. Provide only the string without specifying that it is a summary. Translate in English.''"

definition rephrase_request :: "summarizer \<Rightarrow> string \<Rightarrow> int \<Rightarrow> rat \<Rightarrow> string option \<Rightarrow> request" where
  "rephrase_request self txt max_tokens temperature stop =
     \<lparr>req_messages = [(''system'', rephrase_instruction), (''user'', txt)],
      req_model = model self, req_temperature = temperature,
      req_max_completion_tokens = max_tokens, req_stop = stop\<rparr>"

definition summary_request :: "summarizer \<Rightarrow> string \<Rightarrow> int \<Rightarrow> rat \<Rightarrow> string option \<Rightarrow> request" where
  "summary_request self txt max_tokens temperature stop =
     \<lparr>req_messages = [(''system'', summary_instruction), (''user'', txt)],
      req_model = low_model self, req_temperature = temperature,
      req_max_completion_tokens = max_tokens, req_stop = stop\<rparr>"

text \<open>
  \<open>Summarizer.claim_title_summarize\<close>: the call and the extraction of the completion are
  inside \<open>try\<close>; \<open>except Exception\<close> logs and returns \<open>None\<close>. The result is the returned
  value, the trace and the endpoint state.
\<close>

definition claim_title_summarize ::
  "'c client \<Rightarrow> 'c \<Rightarrow> summarizer \<Rightarrow> string \<Rightarrow> int \<Rightarrow> rat \<Rightarrow> string option
     \<Rightarrow> string option \<times> event list \<times> 'c" where
  "claim_title_summarize create cst self txt max_tokens temperature stop =
     (let tr = [Log INFO ''Starting summarization process.'', Log INFO ''Input text: %s...''];
          (resp, cst') = create cst (rephrase_request self txt max_tokens temperature stop)
      in case (case resp of Inl e \<Rightarrow> Inl e | Inr r \<Rightarrow> first_content r) of
           Inr summary \<Rightarrow>
             (Some summary,
              tr @ [Log INFO ''Summarization completed successfully.'',
                    Log INFO ''Generated summary: %s...''],
              cst')
         | Inl e \<Rightarrow> (None, tr @ [Log ERROR ''Error generating summary: %s''], cst'))"

text \<open>\<open>Summarizer.generate_summary\<close>: no \<open>try\<close>; every exception reaches the caller.\<close>

definition generate_summary ::
  "'c client \<Rightarrow> 'c \<Rightarrow> summarizer \<Rightarrow> string \<Rightarrow> int \<Rightarrow> rat \<Rightarrow> string option
     \<Rightarrow> (exn + string) \<times> 'c" where
  "generate_summary create cst self txt max_tokens temperature stop =
     (let (resp, cst') = create cst (summary_request self txt max_tokens temperature stop)
      in (case resp of Inl e \<Rightarrow> Inl e | Inr r \<Rightarrow> first_content r, cst'))"

text \<open>\<open>time.sleep(secs)\<close> raises \<open>ValueError\<close> on a negative argument.\<close>

definition sleep :: "rat \<Rightarrow> exn + unit" where
  "sleep secs = (if secs < 0 then Inl ValueError else Inr ())"

text \<open>
  The loop of \<open>Summarizer.summarize_texts\<close> over the texts, on the state
  (\<open>summaries\<close>, trace, endpoint state). Inside \<open>try\<close>: the call of \<open>generate_summary\<close> on
  the truncated text and, for a truthy summary, the append, the logging and the sleep; a
  falsy summary only logs a warning. \<open>except Exception\<close> appends \<open>None\<close>.
\<close>

fun summarize_loop ::
  "'c client \<Rightarrow> summarizer \<Rightarrow> int \<Rightarrow> rat \<Rightarrow> string option \<Rightarrow> int \<Rightarrow> rat \<Rightarrow> string list
     \<Rightarrow> string option list \<times> event list \<times> 'c \<Rightarrow> string option list \<times> event list \<times> 'c" where
  "summarize_loop create self max_tokens temperature stop token_cut sleep_temperature []
     (summaries, tr, cst) = (summaries, tr, cst)"
| "summarize_loop create self max_tokens temperature stop token_cut sleep_temperature (txt # rest)
     (summaries, tr, cst) =
     (let tr1 = tr @ [Log INFO ''Summarizing text %d/%d...'', Log DEBUG ''Text %d content: %s''];
          cutted_text = slice_to token_cut txt;
          (res, cst') = generate_summary create cst self cutted_text max_tokens temperature stop
      in summarize_loop create self max_tokens temperature stop token_cut sleep_temperature rest
          (case res of
             Inl e \<Rightarrow>
               (summaries @ [None], tr1 @ [Log ERROR ''Error summarizing text %d: %s''], cst')
           | Inr summary \<Rightarrow>
               if summary \<noteq> [] then
                 (let sleep_time = of_nat (length cutted_text) * sleep_temperature;
                      tr2 = tr1 @ [Log INFO ''Text %d summarized successfully.'',
                                   Log INFO ''Sleep of %f seconds'']
                  in case sleep sleep_time of
                       Inl e \<Rightarrow>
                         (summaries @ [Some summary, None],
                          tr2 @ [Log ERROR ''Error summarizing text %d: %s''], cst')
                     | Inr _ \<Rightarrow> (summaries @ [Some summary], tr2 @ [Sleep sleep_time], cst'))
               else (summaries, tr1 @ [Log WARNING ''No summary returned for text %d.''], cst')))"

definition summarize_texts ::
  "'c client \<Rightarrow> 'c \<Rightarrow> summarizer \<Rightarrow> string list \<Rightarrow> int \<Rightarrow> rat \<Rightarrow> string option \<Rightarrow> int \<Rightarrow> rat
     \<Rightarrow> string option list \<times> event list \<times> 'c" where
  "summarize_texts create cst self texts max_tokens temperature stop token_cut sleep_temperature =
     (let (summaries, tr, cst') =
            summarize_loop create self max_tokens temperature stop token_cut sleep_temperature
              texts ([], [Log INFO ''Starting batch summarization process for %d texts.''], cst)
      in (summaries, tr @ [Log INFO ''Batch summarization process completed.''], cst'))"

section \<open>GraphRAG/graph\_manager.py: GraphManager.load\_data\<close>

record article =
  TITLE :: string
  URL :: string
  BODY :: string
  SITE :: string
  ENTITY :: "string list"
  TOPIC :: "string list"

text \<open>
  The graph engine, with state \<open>'g\<close>: \<open>query\<close> stands for
  \<open>self.graph.query(q_load_articles, params={"data": data})\<close> and \<open>refresh_schema\<close> for
  \<open>self.graph.refresh_schema()\<close>; either may raise. Only the query is inside \<open>try\<close>;
  the schema refresh follows the \<open>try\<close> statement.
\<close>

definition load_data ::
  "('g \<Rightarrow> article list \<Rightarrow> (exn + unit) \<times> 'g) \<Rightarrow> ('g \<Rightarrow> (exn + unit) \<times> 'g) \<Rightarrow> 'g
     \<Rightarrow> article list \<Rightarrow> (exn + unit) \<times> event list \<times> 'g" where
  "load_data query refresh_schema g data =
     (let tr = [Log INFO ''Avvio caricamento dati da {data}...''];
          (r, g1) = query g data;
          tr1 = (case r of
                   Inr _ \<Rightarrow> tr @ [Log INFO ''Caricamento completato in {elapsed_time:.2f} secondi.'']
                 | Inl e \<Rightarrow> tr @ [Log ERROR ''Errore durante il caricamento dati: {e}'']);
          (r2, g2) = refresh_schema g1
      in (r2, tr1, g2))"

section \<open>GraphRAG/graph\_manager.py: avoid\_overlap\<close>







section \<open>Vocabulary of the statements\<close>

definition source_ids :: "database \<Rightarrow> string set" where
  "source_ids db = (case sources db of None \<Rightarrow> {} | Some rs \<Rightarrow> set (map sr_id rs))"

definition fresh_uuids :: "(nat \<Rightarrow> string) \<Rightarrow> nat \<Rightarrow> database \<Rightarrow> bool" where
  "fresh_uuids uuid n db =
     (distinct (map uuid [0..<n]) \<and> (\<forall>k \<in> set [0..<n]. uuid k \<notin> source_ids db))"

definition prior_sources :: "database \<Rightarrow> claim \<Rightarrow> source_dict list" where
  "prior_sources db self = (case get_dict_sources db self of Inl e \<Rightarrow> [] | Inr ds \<Rightarrow> ds)"



fun new_rows :: "string \<Rightarrow> (nat \<Rightarrow> string) \<Rightarrow> nat \<Rightarrow> source_data list \<Rightarrow> source_row list" where
  "new_rows cid uuid k [] = []"
| "new_rows cid uuid k (d # ds) = source_params (uuid k) cid d # new_rows cid uuid (Suc k) ds"

definition dict_fields :: "source_dict \<Rightarrow> string \<times> string \<times> string \<times> string \<times> string \<times> string" where
  "dict_fields r = (d_title r, d_url r, d_site r, d_body r, d_topic r, d_entities r)"

definition data_fields :: "source_data \<Rightarrow> string \<times> string \<times> string \<times> string \<times> string \<times> string" where
  "data_fields d = (data_title d, data_url d, data_site d, data_body d, data_topic d,
                    py_str (data_entities d))"

text \<open>The \<open>Source\<close> object that carries the values of a dict of \<open>get_dict_sources\<close>.\<close>

definition dict_source :: "source_dict \<Rightarrow> source" where
  "dict_source r =
     \<lparr>s_id = d_source_id r, s_claim_id = d_claim_id r, s_title = d_title r, s_url = d_url r,
      s_site = d_site r, s_body = d_body r, s_entities = d_entities r, s_topic = d_topic r\<rparr>"

text \<open>
  The results of the successive calls of \<open>generate_summary\<close> that \<open>summarize_texts\<close>
  makes, one per text, and the entries one such result adds to \<open>summaries\<close> when the
  sleep does not raise.
\<close>

fun remote_outcomes ::
  "'c client \<Rightarrow> summarizer \<Rightarrow> int \<Rightarrow> rat \<Rightarrow> string option \<Rightarrow> int \<Rightarrow> string list \<Rightarrow> 'c
     \<Rightarrow> (exn + string) list" where
  "remote_outcomes create self max_tokens temperature stop token_cut [] cst = []"
| "remote_outcomes create self max_tokens temperature stop token_cut (txt # rest) cst =
     (let (res, cst') =
            generate_summary create cst self (slice_to token_cut txt) max_tokens temperature stop
      in res # remote_outcomes create self max_tokens temperature stop token_cut rest cst')"

fun entry :: "exn + string \<Rightarrow> string option list" where
  "entry (Inl e) = [None]"
| "entry (Inr summary) = (if summary \<noteq> [] then [Some summary] else [])"





subsection \<open>Example inputs\<close>

definition example_uuid :: "nat \<Rightarrow> string" where
  "example_uuid k = replicate (Suc k) (CHR ''u'')"

definition empty_store :: database where
  "empty_store = \<lparr>claims = None, sources = None, answers = None\<rparr>"

definition example_claim :: claim where
  "example_claim = \<lparr>c_id = ''c1'', c_text = ''The earth is round'',
                     c_title = ''The Earth Is Round'', c_summary = ''...''\<rparr>"

definition example_sources :: "source_data list" where
  "example_sources =
     [\<lparr>data_title = ''T1'', data_url = ''http://a'', data_site = ''a'', data_body = ''B1'',
       data_topic = ''geo'', data_entities = PyList [PyStr ''Rome'', PyStr ''Italy'']\<rparr>,
      \<lparr>data_title = ''T2'', data_url = ''http://b'', data_site = ''b'', data_body = ''B2'',
       data_topic = ''geo'', data_entities = PyStr ''Paris''\<rparr>]"

definition full_store :: database where
  "full_store =
     \<lparr>claims = Some [\<lparr>cr_id = ''c1'', cr_text = ''The earth is round'',
                       cr_title = ''The Earth Is Round'', cr_summary = ''...''\<rparr>,
                      \<lparr>cr_id = ''c2'', cr_text = ''x'', cr_title = ''y'', cr_summary = ''z''\<rparr>],
      sources = Some [source_params ''s1'' ''c1'' (example_sources ! 0),
                      source_params ''s2'' ''c2'' (example_sources ! 1)],
      answers = Some [\<lparr>ar_id = ''a1'', ar_claim_id = ''c1'', ar_answer = ''true'',
                        ar_graphs_folder = ''graphs/c1''\<rparr>]\<rparr>"

definition example_summarizer :: summarizer where
  "example_summarizer = \<lparr>model = Some ''large'', low_model = Some ''small''\<rparr>"

text \<open>
  Endpoints: one that answers every request with a blank completion, one that fails on
  its even calls and answers its odd ones, and one per malformed response.
\<close>

definition blank_client :: "nat client" where
  "blank_client cst req = (Inr [Some ''  ''], Suc cst)"

definition flaky_client :: "nat client" where
  "flaky_client cst req =
     (if even cst then Inl (RemoteError ''503'')
      else Inr [Some ('' re: '' @ snd (req_messages req ! 1) @ '' '')], Suc cst)"

definition no_choice_client :: "nat client" where
  "no_choice_client cst req = (Inr [], Suc cst)"

definition no_content_client :: "nat client" where
  "no_content_client cst req = (Inr [None], Suc cst)"

text \<open>Graph engines: the state counts the statements the engine has seen.\<close>

definition failing_query :: "nat \<Rightarrow> article list \<Rightarrow> (exn + unit) \<times> nat" where
  "failing_query g data = (Inl (RemoteError ''ServiceUnavailable''), Suc g)"

definition failing_refresh :: "nat \<Rightarrow> (exn + unit) \<times> nat" where
  "failing_refresh g = (Inl (RemoteError ''ServiceUnavailable''), Suc g)"

definition working_refresh :: "nat \<Rightarrow> (exn + unit) \<times> nat" where
  "working_refresh g = (Inr (), Suc g)"


section \<open>Properties\<close>

subsection \<open>Claims, sources and answers\<close>




lemma sr_id_source_params [simp]: "sr_id (source_params u cid d) = u"
  by (simp add: source_params_def)

lemma insert_sources_fresh:
  "inj_on uuid {k..<k + length ds} \<Longrightarrow>
   uuid ` {k..<k + length ds} \<inter> sr_id ` set rs = {} \<Longrightarrow>
   insert_sources cid uuid k ds (Some rs) = Inr (Some (rs @ new_rows cid uuid k ds))"
proof (induction ds arbitrary: k rs)
  case Nil
  then show ?case by simp
next
  case (Cons d ds)
  have sub: "{Suc k..<Suc k + length ds} \<subseteq> {k..<k + length (d # ds)}"
    and kin: "k \<in> {k..<k + length (d # ds)}"
    by auto
  from Cons.prems(2) kin have nk: "uuid k \<notin> sr_id ` set rs"
    by blast
  have i1: "inj_on uuid {Suc k..<Suc k + length ds}"
    using Cons.prems(1) sub by (rule inj_on_subset)
  have ne: "uuid i \<noteq> uuid k" if "i \<in> {Suc k..<Suc k + length ds}" for i
  proof
    assume "uuid i = uuid k"
    with Cons.prems(1) sub kin that have "i = k"
      by (meson inj_onD subsetD)
    with that show False by simp
  qed
  have i2: "uuid ` {Suc k..<Suc k + length ds}
              \<inter> sr_id ` set (rs @ [source_params (uuid k) cid d]) = {}"
  proof -
    have "uuid i \<notin> sr_id ` set (rs @ [source_params (uuid k) cid d])"
      if i: "i \<in> {Suc k..<Suc k + length ds}" for i
    proof -
      from i sub have "uuid i \<in> uuid ` {k..<k + length (d # ds)}" by blast
      with Cons.prems(2) have "uuid i \<notin> sr_id ` set rs" by blast
      moreover have "sr_id (source_params (uuid k) cid d) = uuid k"
        by (simp add: source_params_def)
      ultimately show ?thesis using ne[OF i] by auto
    qed
    then show ?thesis by blast
  qed
  show ?case
    using nk Cons.IH[OF i1 i2] by (simp add: insert_into_def)
qed

lemma insert_sources_table:
  "insert_sources cid uuid k ds (Some rs) \<noteq> Inl (NoSuchTable n)"
  by (induction ds arbitrary: k rs) (auto simp: insert_into_def split: sum.splits)

lemma length_new_rows: "length (new_rows cid uuid k ds) = length ds"
  by (induction ds arbitrary: k) auto

lemma nth_new_rows:
  "i < length ds \<Longrightarrow> new_rows cid uuid k ds ! i = source_params (uuid (k + i)) cid (ds ! i)"
  by (induction ds arbitrary: k i) (auto simp: nth_Cons split: nat.splits)

lemma new_rows_claim: "r \<in> set (new_rows cid uuid k ds) \<Longrightarrow> sr_claim_id r = cid"
  by (induction ds arbitrary: k) (auto simp: source_params_def)

lemma filter_new_rows:
  "filter (\<lambda>r. sr_claim_id r = cid) (new_rows cid uuid k ds) = new_rows cid uuid k ds"
  by (rule filter_True) (auto dest: new_rows_claim)

lemma fresh_uuids_inj:
  "fresh_uuids uuid n db \<Longrightarrow> inj_on uuid {0..<0 + n}"
  by (simp add: fresh_uuids_def distinct_map)

lemma fresh_uuids_disj:
  "fresh_uuids uuid n db \<Longrightarrow> sources db = Some rs \<Longrightarrow> uuid ` {0..<0 + n} \<inter> sr_id ` set rs = {}"
  by (auto simp: fresh_uuids_def source_ids_def)

lemma fresh_uuids_disj_None:
  "uuid ` {0..<0 + n} \<inter> sr_id ` set [] = {}"
  by simp

lemma add_sources_fresh:
  assumes "fresh_uuids uuid (length ds) db"
  shows "add_sources db self uuid ds =
     Inr (db\<lparr>sources := Some ((case sources db of None \<Rightarrow> [] | Some rs \<Rightarrow> rs)
                                  @ new_rows (c_id self) uuid 0 ds)\<rparr>)"
proof (cases "sources db")
  case None
  have "insert_sources (c_id self) uuid 0 ds (Some []) = Inr (Some ([] @ new_rows (c_id self) uuid 0 ds))"
    using fresh_uuids_inj[OF assms] fresh_uuids_disj_None by (rule insert_sources_fresh)
  with None show ?thesis
    by (simp add: add_sources_def create_table_if_not_exists_def)
next
  case (Some rs)
  have "insert_sources (c_id self) uuid 0 ds (Some rs) = Inr (Some (rs @ new_rows (c_id self) uuid 0 ds))"
    using fresh_uuids_inj[OF assms] fresh_uuids_disj[OF assms Some] by (rule insert_sources_fresh)
  with Some show ?thesis
    by (simp add: add_sources_def create_table_if_not_exists_def)
qed

lemma get_after_add:
  assumes "fresh_uuids uuid (length ds) db"
  shows "\<exists>db'. add_sources db self uuid ds = Inr db' \<and>
     get_dict_sources db' self =
       Inr (prior_sources db self @ map row_dict (new_rows (c_id self) uuid 0 ds))"
  by (cases "sources db")
     (simp_all add: add_sources_fresh[OF assms] get_dict_sources_def select_where_def
        prior_sources_def filter_new_rows)


lemma dict_fields_new_rows:
  "map (dict_fields \<circ> row_dict) (new_rows cid uuid k ds) = map data_fields ds"
  by (induction ds arbitrary: k)
     (auto simp: dict_fields_def data_fields_def row_dict_def source_params_def)

lemma get_dict_sources_claim:
  "get_dict_sources db self = Inr res \<Longrightarrow> r \<in> set res \<Longrightarrow> d_claim_id r = c_id self"
  by (auto simp: get_dict_sources_def select_where_def row_dict_def split: option.splits)

text \<open>
  \<open>get_sources\<close> reads the rows that \<open>get_dict_sources\<close> reads: when the stored
  identifiers are non-empty (as every \<open>str(uuid.uuid4())\<close> is) its objects carry exactly
  the values of the dicts.
\<close>

lemma map_enumerate_ignore: "map (\<lambda>(k, x). f x) (enumerate n xs) = map f xs"
  by (induction xs arbitrary: n) auto

lemma enumerate_mem: "(k, x) \<in> set (enumerate n xs) \<Longrightarrow> x \<in> set xs"
  by (induction xs arbitrary: n) auto

lemma get_sources_get_dict_sources:
  assumes "get_dict_sources db self = Inr res" and "\<forall>r \<in> set res. d_source_id r \<noteq> []"
  shows "get_sources db (c_id self) uuid = Inr (map dict_source res)"
proof (cases "sources db")
  case None
  with assms(1) show ?thesis
    by (simp add: get_dict_sources_def select_where_def)
next
  case (Some rs)
  let ?rows = "filter (\<lambda>r. sr_claim_id r = c_id self) rs"
  from Some assms(1) have res: "res = map row_dict ?rows"
    by (simp add: get_dict_sources_def select_where_def)
  with assms(2) have ne: "\<forall>row \<in> set ?rows. sr_id row \<noteq> []"
    by (simp add: row_dict_def)
  have "map (\<lambda>(k, row). Source_init (sr_claim_id row) (sr_title row) (sr_url row)
                 (sr_site row) (sr_body row) (sr_entities row) (sr_topic row)
                 (Some (sr_id row)) (uuid k)) (enumerate 0 ?rows)
      = map (\<lambda>(k, row). dict_source (row_dict row)) (enumerate 0 ?rows)"
  proof (rule map_cong[OF refl])
    fix p
    assume p: "p \<in> set (enumerate 0 ?rows)"
    obtain k row where kr: "p = (k, row)"
      by (cases p)
    from p[unfolded kr] have "row \<in> set ?rows"
      by (rule enumerate_mem)
    with ne have "sr_id row \<noteq> []"
      by blast
    with kr show "(case p of (k, row) \<Rightarrow>
                     Source_init (sr_claim_id row) (sr_title row) (sr_url row) (sr_site row)
                       (sr_body row) (sr_entities row) (sr_topic row) (Some (sr_id row)) (uuid k))
                = (case p of (k, row) \<Rightarrow> dict_source (row_dict row))"
      by (simp add: Source_init_def dict_source_def row_dict_def)
  qed
  also have "\<dots> = map (\<lambda>row. dict_source (row_dict row)) ?rows"
    by (rule map_enumerate_ignore)
  finally show ?thesis
    using Some res by (simp add: get_sources_def select_where_def)
qed

text \<open>
  C2 (amended). When the generated source identifiers are fresh, \<open>add_sources\<close> succeeds
  and a subsequent \<open>get_dict_sources\<close> for the claim returns the sources the claim had
  before followed by one record per added element, in the order of the batch: the same
  number of records, each with the title, url, site, body and topic of its element and
  with \<open>str(entities)\<close> as its entities. As multisets (whatever the order) the added
  records carry the field values of the batch, with the entities rendered. Every record
  returned belongs to the queried claim.
\<close>

theorem add_sources_get_dict_sources:
  assumes "fresh_uuids uuid (length batch) db"
  shows "\<exists>db' res.
     add_sources db self uuid batch = Inr db'
     \<and> get_dict_sources db' self = Inr res
     \<and> length res = length (prior_sources db self) + length batch
     \<and> take (length (prior_sources db self)) res = prior_sources db self
     \<and> (\<forall>k \<in> set [0..<length batch].
           let r = res ! (length (prior_sources db self) + k); d = batch ! k
           in d_source_id r = uuid k \<and> d_claim_id r = c_id self
              \<and> d_title r = data_title d \<and> d_url r = data_url d \<and> d_site r = data_site d
              \<and> d_body r = data_body d \<and> d_topic r = data_topic d
              \<and> d_entities r = py_str (data_entities d))
     \<and> mset (map dict_fields (drop (length (prior_sources db self)) res))
           = mset (map data_fields batch)
     \<and> (\<forall>r \<in> set res. d_claim_id r = c_id self)"
proof -
  let ?new = "map row_dict (new_rows (c_id self) uuid 0 batch)"
  let ?res = "prior_sources db self @ ?new"
  from get_after_add[OF assms] obtain db' where
    add: "add_sources db self uuid batch = Inr db'" and
    get: "get_dict_sources db' self = Inr ?res"
    by blast
  have len: "length ?res = length (prior_sources db self) + length batch"
    by (simp add: length_new_rows)
  have tk: "take (length (prior_sources db self)) ?res = prior_sources db self"
    by simp
  have fields: "\<forall>k \<in> set [0..<length batch].
           let r = ?res ! (length (prior_sources db self) + k); d = batch ! k
           in d_source_id r = uuid k \<and> d_claim_id r = c_id self
              \<and> d_title r = data_title d \<and> d_url r = data_url d \<and> d_site r = data_site d
              \<and> d_body r = data_body d \<and> d_topic r = data_topic d
              \<and> d_entities r = py_str (data_entities d)"
    by (simp add: Let_def length_new_rows nth_new_rows row_dict_def source_params_def)
  have ms: "mset (map dict_fields (drop (length (prior_sources db self)) ?res))
           = mset (map data_fields batch)"
    using dict_fields_new_rows[of "c_id self" uuid 0 batch] by simp
  have own: "\<forall>r \<in> set ?res. d_claim_id r = c_id self"
    using get_dict_sources_claim[OF get] by blast
  from add get len tk fields ms own show ?thesis
    by blast
qed

theorem add_sources_get_dict_sources_witness:
  "fresh_uuids example_uuid (length example_sources) full_store
   \<and> (\<exists>db' res.
         add_sources full_store example_claim example_uuid example_sources = Inr db'
         \<and> get_dict_sources db' example_claim = Inr res
         \<and> length res = 3
         \<and> d_title (res ! 0) = ''T1'' \<and> d_title (res ! 1) = ''T1'' \<and> d_title (res ! 2) = ''T2''
         \<and> d_entities (res ! 2) = ''Paris''
         \<and> (\<forall>r \<in> set res. d_claim_id r = ''c1''))"
proof -
  have h: "fresh_uuids example_uuid (length example_sources) full_store"
    by (simp add: fresh_uuids_def example_uuid_def example_sources_def full_store_def
        source_ids_def source_params_def upt_rec)
  have p: "prior_sources full_store example_claim
             = [row_dict (source_params ''s1'' ''c1'' (example_sources ! 0))]"
    by (simp add: prior_sources_def get_dict_sources_def select_where_def full_store_def
        example_claim_def source_params_def)
  from add_sources_get_dict_sources[OF h, of example_claim] obtain db' res where
    r: "add_sources full_store example_claim example_uuid example_sources = Inr db'"
       "get_dict_sources db' example_claim = Inr res"
       "length res = length (prior_sources full_store example_claim) + length example_sources"
       "take (length (prior_sources full_store example_claim)) res
          = prior_sources full_store example_claim"
       "\<forall>k \<in> set [0..<length example_sources].
           let r = res ! (length (prior_sources full_store example_claim) + k);
               d = example_sources ! k
           in d_source_id r = example_uuid k \<and> d_claim_id r = c_id example_claim
              \<and> d_title r = data_title d \<and> d_url r = data_url d \<and> d_site r = data_site d
              \<and> d_body r = data_body d \<and> d_topic r = data_topic d
              \<and> d_entities r = py_str (data_entities d)"
       "\<forall>r \<in> set res. d_claim_id r = c_id example_claim"
    by blast
  from r(3) have len: "length res = 3"
    by (simp add: p example_sources_def)
  from r(4) have r0: "res ! 0 = row_dict (source_params ''s1'' ''c1'' (example_sources ! 0))"
    using len by (simp add: p take_Suc_conv_app_nth)
  from r(5) have r12: "d_title (res ! 1) = ''T1'' \<and> d_title (res ! 2) = ''T2''
                       \<and> d_entities (res ! 2) = ''Paris''"
    by (simp add: p example_sources_def upt_rec Let_def numeral_2_eq_2)
  from r0 have titles: "d_title (res ! 0) = ''T1''"
    by (simp add: row_dict_def source_params_def example_sources_def)
  from h r(1,2,6) len titles r12 show ?thesis
    by (auto simp: example_claim_def)
qed

text \<open>
  The statement of C2 itself fails on the entities: a list of entities comes back as its
  string rendering.
\<close>

theorem add_sources_same_fields_counterexample:
  "add_sources empty_store example_claim example_uuid [example_sources ! 0]
     = Inr (empty_store\<lparr>sources := Some [source_params ''u'' ''c1'' (example_sources ! 0)]\<rparr>)
   \<and> map d_entities
        (prior_sources
           (empty_store\<lparr>sources := Some [source_params ''u'' ''c1'' (example_sources ! 0)]\<rparr>)
           example_claim)
       = [[CHR ''['', CHR 0x27, CHR ''R'', CHR ''o'', CHR ''m'', CHR ''e'', CHR 0x27, CHR '','',
           CHR '' '', CHR 0x27, CHR ''I'', CHR ''t'', CHR ''a'', CHR ''l'', CHR ''y'', CHR 0x27,
           CHR '']'']]
   \<and> data_entities (example_sources ! 0) = PyList [PyStr ''Rome'', PyStr ''Italy'']"
  by (simp add: add_sources_def create_table_if_not_exists_def insert_into_def empty_store_def
      example_claim_def example_uuid_def example_sources_def source_params_def
      prior_sources_def get_dict_sources_def select_where_def row_dict_def
      repr_str_def repr_char_def py_printable_def Let_def)

text \<open>
  C10. In the titled Claim, \<open>add_sources\<close> stores \<open>str(entities)\<close>: after a successful
  \<open>add_sources\<close> the entities that \<open>get_dict_sources\<close> returns for the added records are
  the renderings of the supplied values, and for a supplied list the returned string is
  the \<open>repr\<close> of the list and differs from the list.
\<close>

theorem entities_stored_as_str:
  assumes "fresh_uuids uuid (length batch) db"
  shows "\<exists>db' res.
     add_sources db self uuid batch = Inr db'
     \<and> get_dict_sources db' self = Inr res
     \<and> map d_entities (drop (length (prior_sources db self)) res)
           = map (\<lambda>d. py_str (data_entities d)) batch
     \<and> (\<forall>k \<in> set [0..<length batch]. \<forall>vs. data_entities (batch ! k) = PyList vs \<longrightarrow>
           d_entities (res ! (length (prior_sources db self) + k)) = py_repr (PyList vs)
           \<and> PyStr (d_entities (res ! (length (prior_sources db self) + k)))
                \<noteq> data_entities (batch ! k))"
proof -
  let ?new = "map row_dict (new_rows (c_id self) uuid 0 batch)"
  let ?res = "prior_sources db self @ ?new"
  from get_after_add[OF assms] obtain db' where
    add: "add_sources db self uuid batch = Inr db'" and
    get: "get_dict_sources db' self = Inr ?res"
    by blast
  have "map (d_entities \<circ> row_dict) (new_rows cid uuid k ds)
          = map (\<lambda>d. py_str (data_entities d)) ds" for cid k ds
    by (induction ds arbitrary: k) (auto simp: row_dict_def source_params_def)
  then have ents: "map d_entities (drop (length (prior_sources db self)) ?res)
           = map (\<lambda>d. py_str (data_entities d)) batch"
    by simp
  have lists: "\<forall>k \<in> set [0..<length batch]. \<forall>vs. data_entities (batch ! k) = PyList vs \<longrightarrow>
           d_entities (?res ! (length (prior_sources db self) + k)) = py_repr (PyList vs)
           \<and> PyStr (d_entities (?res ! (length (prior_sources db self) + k)))
                \<noteq> data_entities (batch ! k)"
    by (simp add: length_new_rows nth_new_rows row_dict_def source_params_def)
  from add get ents lists show ?thesis
    by blast
qed

theorem entities_stored_as_str_witness:
  "fresh_uuids example_uuid (length example_sources) empty_store
   \<and> data_entities (example_sources ! 0) = PyList [PyStr ''Rome'', PyStr ''Italy'']
   \<and> (\<exists>db' res.
         add_sources empty_store example_claim example_uuid example_sources = Inr db'
         \<and> get_dict_sources db' example_claim = Inr res
         \<and> d_entities (res ! 0) = py_repr (PyList [PyStr ''Rome'', PyStr ''Italy''])
         \<and> PyStr (d_entities (res ! 0)) \<noteq> data_entities (example_sources ! 0))"
proof -
  have h: "fresh_uuids example_uuid (length example_sources) empty_store"
    by (simp add: fresh_uuids_def example_uuid_def example_sources_def empty_store_def
        source_ids_def upt_rec)
  have p: "prior_sources empty_store example_claim = []"
    by (simp add: prior_sources_def get_dict_sources_def select_where_def empty_store_def)
  have e: "data_entities (example_sources ! 0) = PyList [PyStr ''Rome'', PyStr ''Italy'']"
    by (simp add: example_sources_def)
  have k: "0 \<in> set [0..<length example_sources]"
    by (simp add: example_sources_def)
  from entities_stored_as_str[OF h, of example_claim] obtain db' res where
    r: "add_sources empty_store example_claim example_uuid example_sources = Inr db'"
       "get_dict_sources db' example_claim = Inr res"
       "\<forall>k \<in> set [0..<length example_sources]. \<forall>vs.
           data_entities (example_sources ! k) = PyList vs \<longrightarrow>
           d_entities (res ! (length (prior_sources empty_store example_claim) + k))
             = py_repr (PyList vs)
           \<and> PyStr (d_entities (res ! (length (prior_sources empty_store example_claim) + k)))
                \<noteq> data_entities (example_sources ! k)"
    by blast
  from r(3) k e have "d_entities (res ! 0) = py_repr (PyList [PyStr ''Rome'', PyStr ''Italy''])
      \<and> PyStr (d_entities (res ! 0)) \<noteq> data_entities (example_sources ! 0)"
    unfolding p by fastforce
  with h e r(1,2) show ?thesis
    by blast
qed

lemma filter_not_filter: "filter P (filter (\<lambda>r. \<not> P r) rs) = []"
  by (induction rs) auto

text \<open>
  C3 (amended). In every store in which the claims, sources and answers tables exist,
  \<open>clear_database\<close> succeeds and removes the claim row and the source and answer rows of
  the claim: afterwards the claim row is gone, \<open>get_dict_sources\<close> returns the empty list
  and \<open>has_answer\<close> returns false; a second \<open>clear_database\<close> in succession succeeds
  as well and changes nothing.
\<close>

theorem clear_database_clears:
  assumes "claims db \<noteq> None" and "sources db \<noteq> None" and "answers db \<noteq> None"
  shows "\<exists>db'. clear_database db self = Inr db'
     \<and> fetch_claim db' (c_id self) = Inr None
     \<and> get_dict_sources db' self = Inr []
     \<and> has_answer db' self = Inr False
     \<and> clear_database db' self = Inr db'"
proof -
  from assms obtain cs ss as where
    "claims db = Some cs" "sources db = Some ss" "answers db = Some as"
    by auto
  then show ?thesis
    by (simp add: clear_database_def delete_where_def fetch_claim_def select_one_def
        select_where_def get_dict_sources_def has_answer_def filter_not_filter)
qed

theorem clear_database_clears_witness:
  "claims full_store \<noteq> None \<and> sources full_store \<noteq> None \<and> answers full_store \<noteq> None
   \<and> has_answer full_store example_claim = Inr True
   \<and> (\<exists>db'. clear_database full_store example_claim = Inr db'
         \<and> get_dict_sources db' example_claim = Inr []
         \<and> has_answer db' example_claim = Inr False
         \<and> clear_database db' example_claim = Inr db')"
proof -
  have h: "claims full_store \<noteq> None" "sources full_store \<noteq> None" "answers full_store \<noteq> None"
    by (simp_all add: full_store_def)
  have a: "has_answer full_store example_claim = Inr True"
    by (simp add: has_answer_def select_one_def select_where_def full_store_def
        example_claim_def)
  from clear_database_clears[OF h, of example_claim] h a show ?thesis
    by blast
qed

text \<open>
  The statement of C3 for every store fails where a table is absent: right after the
  first claim of a new store is created, the sources table does not exist and
  \<open>clear_database\<close> raises.
\<close>

theorem clear_database_counterexample:
  "Claim_init empty_store ''The earth is round'' ''IDThe Earth Is Round'' ''...'' (Some ''c1'') ''u1''
     = Inr (example_claim,
            empty_store\<lparr>claims := Some [\<lparr>cr_id = ''c1'', cr_text = ''The earth is round'',
                                          cr_title = ''The Earth Is Round'',
                                          cr_summary = ''...''\<rparr>]\<rparr>)
   \<and> clear_database
        (empty_store\<lparr>claims := Some [\<lparr>cr_id = ''c1'', cr_text = ''The earth is round'',
                                      cr_title = ''The Earth Is Round'',
                                      cr_summary = ''...''\<rparr>]\<rparr>)
        example_claim
     = Inl (NoSuchTable ''sources'')"
  by (simp add: Claim_init_def save_to_db_def create_table_if_not_exists_def insert_into_def
      clear_database_def delete_where_def empty_store_def example_claim_def)

lemma save_to_db_table:
  "save_to_db db c \<noteq> Inl (NoSuchTable n)"
  by (auto simp: save_to_db_def create_table_if_not_exists_def insert_into_def
      split: option.splits sum.splits if_splits)

lemma Answer_save_to_db_table:
  "Answer_save_to_db db a \<noteq> Inl (NoSuchTable n)"
  by (auto simp: Answer_save_to_db_def create_table_if_not_exists_def insert_into_def
      split: option.splits sum.splits if_splits)

lemma add_sources_table:
  "add_sources db c uuid ds \<noteq> Inl (NoSuchTable n)"
  using insert_sources_table
  by (auto simp: add_sources_def create_table_if_not_exists_def
      split: option.splits sum.splits)

lemma insert_sources_Some:
  "insert_sources cid uuid k ds t = Inr t' \<Longrightarrow> t \<noteq> None \<Longrightarrow> t' \<noteq> None"
  by (induction ds arbitrary: k t) (auto simp: insert_into_def split: sum.splits option.splits if_splits)

text \<open>
  C8 (amended). Every path that inserts rows (\<open>Claim.save_to_db\<close>, \<open>Claim.add_sources\<close>,
  \<open>Answer.save_to_db\<close>) first creates its table if it is absent: on any store none of
  them fails with a missing-table error, after a success the table exists and the other
  tables are as they were, and the create statement is idempotent and leaves an existing
  table untouched. \<open>clear_database\<close> creates no table: it fails with a missing-table error
  exactly when one of the three tables is absent.
\<close>

theorem insert_paths_ensure_table:
  "save_to_db db c \<noteq> Inl (NoSuchTable n)
   \<and> add_sources db c uuid ds \<noteq> Inl (NoSuchTable n)
   \<and> Answer_save_to_db db a \<noteq> Inl (NoSuchTable n)
   \<and> (\<forall>db'. save_to_db db c = Inr db' \<longrightarrow>
         claims db' \<noteq> None \<and> sources db' = sources db \<and> answers db' = answers db)
   \<and> (\<forall>db'. add_sources db c uuid ds = Inr db' \<longrightarrow>
         sources db' \<noteq> None \<and> claims db' = claims db \<and> answers db' = answers db)
   \<and> (\<forall>db'. Answer_save_to_db db a = Inr db' \<longrightarrow>
         answers db' \<noteq> None \<and> claims db' = claims db \<and> sources db' = sources db)
   \<and> create_table_if_not_exists (create_table_if_not_exists t) = create_table_if_not_exists t
   \<and> (t \<noteq> None \<longrightarrow> create_table_if_not_exists t = t)
   \<and> ((\<exists>m. clear_database db c = Inl (NoSuchTable m))
        \<longleftrightarrow> (claims db = None \<or> sources db = None \<or> answers db = None))"
proof -
  have 1: "\<forall>db'. save_to_db db c = Inr db' \<longrightarrow>
         claims db' \<noteq> None \<and> sources db' = sources db \<and> answers db' = answers db"
    by (auto simp: save_to_db_def create_table_if_not_exists_def insert_into_def
        split: option.splits sum.splits if_splits)
  have 2: "\<forall>db'. add_sources db c uuid ds = Inr db' \<longrightarrow>
         sources db' \<noteq> None \<and> claims db' = claims db \<and> answers db' = answers db"
    by (auto simp: add_sources_def create_table_if_not_exists_def
        split: option.splits sum.splits dest: insert_sources_Some)
  have 3: "\<forall>db'. Answer_save_to_db db a = Inr db' \<longrightarrow>
         answers db' \<noteq> None \<and> claims db' = claims db \<and> sources db' = sources db"
    by (auto simp: Answer_save_to_db_def create_table_if_not_exists_def insert_into_def
        split: option.splits sum.splits if_splits)
  have 4: "create_table_if_not_exists (create_table_if_not_exists t) = create_table_if_not_exists t"
    and 5: "t \<noteq> None \<longrightarrow> create_table_if_not_exists t = t"
    by (auto simp: create_table_if_not_exists_def split: option.splits)
  have 6: "(\<exists>m. clear_database db c = Inl (NoSuchTable m))
        \<longleftrightarrow> (claims db = None \<or> sources db = None \<or> answers db = None)"
    by (auto simp: clear_database_def delete_where_def split: option.splits)
  from save_to_db_table add_sources_table Answer_save_to_db_table 1 2 3 4 5 6
  show ?thesis by blast
qed

theorem insert_paths_ensure_table_witness:
  "save_to_db empty_store example_claim
     = Inr (empty_store\<lparr>claims := Some [\<lparr>cr_id = ''c1'', cr_text = ''The earth is round'',
                                           cr_title = ''The Earth Is Round'',
                                           cr_summary = ''...''\<rparr>]\<rparr>)
   \<and> (\<exists>db'. add_sources empty_store example_claim example_uuid example_sources = Inr db'
         \<and> sources db' \<noteq> None \<and> claims db' = None \<and> answers db' = None)
   \<and> (\<exists>db'. Answer_save_to_db empty_store
               \<lparr>a_id = ''a1'', a_claim_id = ''c1'', a_answer = ''true'',
                a_graphs_folder = ''graphs/c1''\<rparr> = Inr db'
         \<and> answers db' \<noteq> None \<and> claims db' = None \<and> sources db' = None)
   \<and> sources full_store \<noteq> None
   \<and> create_table_if_not_exists (sources full_store) = sources full_store
   \<and> (\<exists>m. clear_database empty_store example_claim = Inl (NoSuchTable m))"
proof -
  let ?a = "\<lparr>a_id = ''a1'', a_claim_id = ''c1'', a_answer = ''true'',
             a_graphs_folder = ''graphs/c1''\<rparr>"
  have s: "save_to_db empty_store example_claim
     = Inr (empty_store\<lparr>claims := Some [\<lparr>cr_id = ''c1'', cr_text = ''The earth is round'',
                                           cr_title = ''The Earth Is Round'',
                                           cr_summary = ''...''\<rparr>]\<rparr>)"
    by (simp add: save_to_db_def create_table_if_not_exists_def insert_into_def
        empty_store_def example_claim_def)
  have f: "fresh_uuids example_uuid (length example_sources) empty_store"
    by (simp add: fresh_uuids_def example_uuid_def example_sources_def empty_store_def
        source_ids_def upt_rec)
  obtain db1 where d1: "add_sources empty_store example_claim example_uuid example_sources = Inr db1"
    using add_sources_fresh[OF f] by blast
  obtain db2 where d2: "Answer_save_to_db empty_store ?a = Inr db2"
    by (simp add: Answer_save_to_db_def create_table_if_not_exists_def insert_into_def
        empty_store_def)
  have n: "sources full_store \<noteq> None"
    and e: "claims empty_store = None" "sources empty_store = None" "answers empty_store = None"
    by (simp_all add: full_store_def empty_store_def)
  from insert_paths_ensure_table
         [of empty_store example_claim _ example_uuid example_sources ?a "sources full_store"]
    s d1 d2 n e
  show ?thesis
    by auto
qed

text \<open>
  The statement of C8 for the delete path fails: on a store whose answers table is
  absent \<open>clear_database\<close> raises the missing-table error.
\<close>

theorem clear_database_missing_table_counterexample:
  "clear_database (full_store\<lparr>answers := None\<rparr>) example_claim = Inl (NoSuchTable ''answers'')"
  by (simp add: clear_database_def delete_where_def full_store_def)

subsection \<open>Summarizer\<close>

lemma summarize_loop_summaries:
  assumes "0 \<le> sleep_temperature"
  shows "fst (summarize_loop create self max_tokens temperature stop token_cut sleep_temperature
            texts (summaries, tr, cst))
         = summaries @ concat (map entry
             (remote_outcomes create self max_tokens temperature stop token_cut texts cst))"
proof (induction texts arbitrary: summaries tr cst)
  case Nil
  then show ?case by simp
next
  case (Cons t rest)
  obtain res cst' where g:
    "generate_summary create cst self (slice_to token_cut t) max_tokens temperature stop = (res, cst')"
    by (cases "generate_summary create cst self (slice_to token_cut t) max_tokens temperature stop")
  have nn: "\<not> of_nat (length (slice_to token_cut t)) * sleep_temperature < 0"
    using assms by (simp add: not_less)
  show ?case
  proof (cases res)
    case (Inl e)
    with g Cons.IH show ?thesis by simp
  next
    case (Inr summary)
    with g nn Cons.IH show ?thesis by (simp add: sleep_def Let_def)
  qed
qed

lemma length_remote_outcomes:
  "length (remote_outcomes create self max_tokens temperature stop token_cut texts cst) = length texts"
  by (induction texts arbitrary: cst) (auto split: prod.splits)

lemma length_concat_entry: "length (concat (map entry os)) \<le> length os"
proof (induction os)
  case Nil
  then show ?case by simp
next
  case (Cons a os)
  then show ?case by (cases a) auto
qed

lemma concat_entry_nonblank:
  "Inr [] \<notin> set os \<Longrightarrow>
   concat (map entry os) = map (\<lambda>r. case r of Inl e \<Rightarrow> None | Inr summary \<Rightarrow> Some summary) os"
proof (induction os)
  case Nil
  then show ?case by simp
next
  case (Cons a os)
  then show ?case by (cases a) auto
qed

text \<open>
  C4 (amended). With a non-negative \<open>sleep_temperature\<close> (the default is 0.0003),
  \<open>summarize_texts\<close> raises nothing, calls \<open>generate_summary\<close> once for every text (on
  the text truncated to \<open>token_cut\<close>) whatever the earlier calls did, and returns, in the
  order of the texts, \<open>None\<close> for each call that failed and the summary for each call
  that gave a non-empty summary; a call that gave an empty summary adds no entry. So the
  list has at most one entry per text, and exactly one per text when no call gives an
  empty summary.
\<close>

theorem summarize_texts_entries:
  assumes "0 \<le> sleep_temperature"
  shows "fst (summarize_texts create cst self texts max_tokens temperature stop token_cut sleep_temperature)
           = concat (map entry
               (remote_outcomes create self max_tokens temperature stop token_cut texts cst))
    \<and> length (remote_outcomes create self max_tokens temperature stop token_cut texts cst)
           = length texts
    \<and> length (fst (summarize_texts create cst self texts max_tokens temperature stop token_cut
                     sleep_temperature)) \<le> length texts
    \<and> (Inr [] \<notin> set (remote_outcomes create self max_tokens temperature stop token_cut texts cst)
         \<longrightarrow> fst (summarize_texts create cst self texts max_tokens temperature stop token_cut
                     sleep_temperature)
               = map (\<lambda>r. case r of Inl e \<Rightarrow> None | Inr summary \<Rightarrow> Some summary)
                   (remote_outcomes create self max_tokens temperature stop token_cut texts cst))"
proof -
  let ?os = "remote_outcomes create self max_tokens temperature stop token_cut texts cst"
  have "fst (summarize_texts create cst self texts max_tokens temperature stop token_cut sleep_temperature)
          = fst (summarize_loop create self max_tokens temperature stop token_cut sleep_temperature
              texts ([], [Log INFO ''Starting batch summarization process for %d texts.''], cst))"
    by (simp add: summarize_texts_def split: prod.splits)
  then have eq: "fst (summarize_texts create cst self texts max_tokens temperature stop token_cut
                    sleep_temperature) = concat (map entry ?os)"
    by (simp only: summarize_loop_summaries[OF assms] append_Nil)
  have len: "length ?os = length texts"
    by (rule length_remote_outcomes)
  from eq len length_concat_entry[of ?os] concat_entry_nonblank[of ?os]
  show ?thesis by simp
qed

theorem summarize_texts_entries_witness:
  "(0::rat) \<le> 3/10000
   \<and> Inr [] \<notin> set (remote_outcomes flaky_client example_summarizer 1024 (1/2) None 3
                       [''short text'', ''abcdef'', ''x''] 0)
   \<and> fst (summarize_texts flaky_client 0 example_summarizer [''short text'', ''abcdef'', ''x'']
            1024 (1/2) None 3 (3/10000))
       = [None, Some ''re: abc'', None]"
proof -
  have h: "(0::rat) \<le> 3/10000"
    by simp
  have o: "remote_outcomes flaky_client example_summarizer 1024 (1/2) None 3
             [''short text'', ''abcdef'', ''x''] 0
           = [Inl (RemoteError ''503''), Inr ''re: abc'', Inl (RemoteError ''503'')]"
    by (simp add: generate_summary_def flaky_client_def summary_request_def slice_to_def
        first_content_def strip_def py_space_def)
  from summarize_texts_entries[OF h, of flaky_client 0 example_summarizer
         "[''short text'', ''abcdef'', ''x'']" 1024 "1/2" None 3] h
  show ?thesis
    unfolding o by simp
qed

text \<open>
  The statement of C4 fails when a call succeeds with a blank completion: the result has
  no entry for that text.
\<close>

theorem summarize_texts_counterexample:
  "fst (blank_client 0 (summary_request example_summarizer ''short text'' 1024 (1/2) None))
     = Inr [Some ''  '']
   \<and> fst (summarize_texts blank_client 0 example_summarizer [''short text'']
            1024 (1/2) None 20000 (3/10000)) = []"
  by (simp add: summarize_texts_def generate_summary_def blank_client_def slice_to_def
      first_content_def strip_def py_space_def)

text \<open>
  C5. \<open>claim_title_summarize\<close> raises nothing: when the remote call raises, or the
  response has no choice, or the content of its first choice is \<open>None\<close>, an error is
  logged and the result is \<open>None\<close>; otherwise the result is the stripped content of the
  first choice.
\<close>

theorem claim_title_summarize_result:
  "(\<forall>e. fst (create cst (rephrase_request self txt max_tokens temperature stop)) = Inl e \<longrightarrow>
       fst (claim_title_summarize create cst self txt max_tokens temperature stop) = None
       \<and> Log ERROR ''Error generating summary: %s''
            \<in> set (fst (snd (claim_title_summarize create cst self txt max_tokens temperature stop))))
   \<and> (fst (create cst (rephrase_request self txt max_tokens temperature stop)) = Inr [] \<longrightarrow>
       fst (claim_title_summarize create cst self txt max_tokens temperature stop) = None
       \<and> Log ERROR ''Error generating summary: %s''
            \<in> set (fst (snd (claim_title_summarize create cst self txt max_tokens temperature stop))))
   \<and> (\<forall>cs. fst (create cst (rephrase_request self txt max_tokens temperature stop)) = Inr (None # cs) \<longrightarrow>
       fst (claim_title_summarize create cst self txt max_tokens temperature stop) = None
       \<and> Log ERROR ''Error generating summary: %s''
            \<in> set (fst (snd (claim_title_summarize create cst self txt max_tokens temperature stop))))
   \<and> (\<forall>s cs. fst (create cst (rephrase_request self txt max_tokens temperature stop)) = Inr (Some s # cs) \<longrightarrow>
       fst (claim_title_summarize create cst self txt max_tokens temperature stop) = Some (strip s))"
  by (cases "create cst (rephrase_request self txt max_tokens temperature stop)")
     (auto simp: claim_title_summarize_def first_content_def)

theorem claim_title_summarize_result_witness:
  "fst (flaky_client 0 (rephrase_request example_summarizer ''abc'' 1024 (1/2) None))
     = Inl (RemoteError ''503'')
   \<and> fst (claim_title_summarize flaky_client 0 example_summarizer ''abc'' 1024 (1/2) None) = None
   \<and> Log ERROR ''Error generating summary: %s''
        \<in> set (fst (snd (claim_title_summarize flaky_client 0 example_summarizer ''abc'' 1024
                          (1/2) None)))
   \<and> fst (no_choice_client 0 (rephrase_request example_summarizer ''abc'' 1024 (1/2) None)) = Inr []
   \<and> fst (claim_title_summarize no_choice_client 0 example_summarizer ''abc'' 1024 (1/2) None)
       = None
   \<and> fst (no_content_client 0 (rephrase_request example_summarizer ''abc'' 1024 (1/2) None))
       = Inr [None]
   \<and> fst (claim_title_summarize no_content_client 0 example_summarizer ''abc'' 1024 (1/2) None)
       = None
   \<and> fst (flaky_client 1 (rephrase_request example_summarizer ''abc'' 1024 (1/2) None))
       = Inr [Some '' re: abc '']
   \<and> fst (claim_title_summarize flaky_client 1 example_summarizer ''abc'' 1024 (1/2) None)
       = Some (strip '' re: abc '')"
proof -
  have h1: "fst (flaky_client 0 (rephrase_request example_summarizer ''abc'' 1024 (1/2) None))
              = Inl (RemoteError ''503'')"
    and h2: "fst (no_choice_client 0 (rephrase_request example_summarizer ''abc'' 1024 (1/2) None))
              = Inr []"
    and h3: "fst (no_content_client 0 (rephrase_request example_summarizer ''abc'' 1024 (1/2) None))
              = Inr [None]"
    and h4: "fst (flaky_client 1 (rephrase_request example_summarizer ''abc'' 1024 (1/2) None))
              = Inr [Some '' re: abc '']"
    by (simp_all add: flaky_client_def no_choice_client_def no_content_client_def
        rephrase_request_def)
  from claim_title_summarize_result[of flaky_client 0 example_summarizer "''abc''" 1024 "1/2" None]
    claim_title_summarize_result[of no_choice_client 0 example_summarizer "''abc''" 1024 "1/2" None]
    claim_title_summarize_result[of no_content_client 0 example_summarizer "''abc''" 1024 "1/2" None]
    claim_title_summarize_result[of flaky_client 1 example_summarizer "''abc''" 1024 "1/2" None]
    h1 h2 h3 h4
  show ?thesis
    by blast
qed

text \<open>
  C6. \<open>generate_summary\<close> hands every failure to its caller: an exception of the remote
  call is raised unchanged, a response without choices raises \<open>IndexError\<close>, a \<open>None\<close>
  content raises \<open>AttributeError\<close>; a value is returned only on success, and it is the
  stripped content of the first choice.
\<close>

theorem generate_summary_propagates:
  "(\<forall>e. fst (create cst (summary_request self txt max_tokens temperature stop)) = Inl e \<longrightarrow>
       fst (generate_summary create cst self txt max_tokens temperature stop) = Inl e)
   \<and> (fst (create cst (summary_request self txt max_tokens temperature stop)) = Inr [] \<longrightarrow>
       fst (generate_summary create cst self txt max_tokens temperature stop) = Inl IndexError)
   \<and> (\<forall>cs. fst (create cst (summary_request self txt max_tokens temperature stop)) = Inr (None # cs) \<longrightarrow>
       fst (generate_summary create cst self txt max_tokens temperature stop) = Inl AttributeError)
   \<and> (\<forall>s cs. fst (create cst (summary_request self txt max_tokens temperature stop)) = Inr (Some s # cs) \<longrightarrow>
       fst (generate_summary create cst self txt max_tokens temperature stop) = Inr (strip s))"
  by (cases "create cst (summary_request self txt max_tokens temperature stop)")
     (auto simp: generate_summary_def first_content_def)

theorem generate_summary_propagates_witness:
  "fst (flaky_client 0 (summary_request example_summarizer ''abc'' 1024 (1/2) None))
     = Inl (RemoteError ''503'')
   \<and> fst (generate_summary flaky_client 0 example_summarizer ''abc'' 1024 (1/2) None)
       = Inl (RemoteError ''503'')
   \<and> fst (no_choice_client 0 (summary_request example_summarizer ''abc'' 1024 (1/2) None)) = Inr []
   \<and> fst (generate_summary no_choice_client 0 example_summarizer ''abc'' 1024 (1/2) None)
       = Inl IndexError
   \<and> fst (no_content_client 0 (summary_request example_summarizer ''abc'' 1024 (1/2) None))
       = Inr [None]
   \<and> fst (generate_summary no_content_client 0 example_summarizer ''abc'' 1024 (1/2) None)
       = Inl AttributeError
   \<and> fst (flaky_client 1 (summary_request example_summarizer ''abc'' 1024 (1/2) None))
       = Inr [Some '' re: abc '']
   \<and> fst (generate_summary flaky_client 1 example_summarizer ''abc'' 1024 (1/2) None)
       = Inr (strip '' re: abc '')"
proof -
  have h1: "fst (flaky_client 0 (summary_request example_summarizer ''abc'' 1024 (1/2) None))
              = Inl (RemoteError ''503'')"
    and h2: "fst (no_choice_client 0 (summary_request example_summarizer ''abc'' 1024 (1/2) None))
              = Inr []"
    and h3: "fst (no_content_client 0 (summary_request example_summarizer ''abc'' 1024 (1/2) None))
              = Inr [None]"
    and h4: "fst (flaky_client 1 (summary_request example_summarizer ''abc'' 1024 (1/2) None))
              = Inr [Some '' re: abc '']"
    by (simp_all add: flaky_client_def no_choice_client_def no_content_client_def
        summary_request_def)
  from generate_summary_propagates[of flaky_client 0 example_summarizer "''abc''" 1024 "1/2" None]
    generate_summary_propagates[of no_choice_client 0 example_summarizer "''abc''" 1024 "1/2" None]
    generate_summary_propagates[of no_content_client 0 example_summarizer "''abc''" 1024 "1/2" None]
    generate_summary_propagates[of flaky_client 1 example_summarizer "''abc''" 1024 "1/2" None]
    h1 h2 h3 h4
  show ?thesis
    by blast
qed

subsection \<open>GraphManager.load\_data\<close>

text \<open>
  C9 (amended). When the bulk graph-load query raises, \<open>load_data\<close> logs the error, does
  not raise the query's exception and sends the engine nothing to undo the load: the
  only further call is \<open>refresh_schema\<close>, made after the \<open>try\<close> statement on the state
  the failed query left. \<open>load_data\<close> returns normally exactly when that refresh does;
  an exception of \<open>refresh_schema\<close> reaches the caller.
\<close>

theorem load_data_query_failure:
  assumes "fst (query g data) = Inl e"
  shows "Log ERROR ''Errore durante il caricamento dati: {e}''
           \<in> set (fst (snd (load_data query refresh_schema g data)))
     \<and> fst (load_data query refresh_schema g data) = fst (refresh_schema (snd (query g data)))
     \<and> snd (snd (load_data query refresh_schema g data)) = snd (refresh_schema (snd (query g data)))"
  using assms by (auto simp: load_data_def Let_def split: prod.splits)

theorem load_data_query_failure_witness:
  "fst (failing_query 0 []) = Inl (RemoteError ''ServiceUnavailable'')
   \<and> load_data failing_query working_refresh 0 []
       = (Inr (),
          [Log INFO ''Avvio caricamento dati da {data}...'',
           Log ERROR ''Errore durante il caricamento dati: {e}''],
          2)"
proof -
  have h: "fst (failing_query 0 []) = Inl (RemoteError ''ServiceUnavailable'')"
    by (simp add: failing_query_def)
  have "fst (snd (load_data failing_query working_refresh 0 []))
          = [Log INFO ''Avvio caricamento dati da {data}...'',
             Log ERROR ''Errore durante il caricamento dati: {e}'']"
    by (simp add: load_data_def failing_query_def working_refresh_def)
  with load_data_query_failure[of failing_query 0 "[]" _ working_refresh, OF h] h show ?thesis
    by (simp add: failing_query_def working_refresh_def prod_eq_iff)
qed

text \<open>
  The statement of C9 fails when the schema refresh after the failed query raises as
  well: the caller receives that exception.
\<close>

theorem load_data_counterexample:
  "fst (failing_query 0 []) = Inl (RemoteError ''ServiceUnavailable'')
   \<and> fst (load_data failing_query failing_refresh 0 []) = Inl (RemoteError ''ServiceUnavailable'')"
  by (simp add: load_data_def failing_query_def failing_refresh_def)

subsection \<open>avoid\_overlap\<close>





















end
